theory Spec2Isabelle
  imports Complex_Main "HOL-Library.AList"
begin

section \<open>JSON documents, source pointers and errors\<close>

text \<open>
  The wire values handled by \<^verbatim>\<open>jsonapi.schema\<close> are the Python objects produced by
  \<^verbatim>\<open>json.loads\<close>: \<^verbatim>\<open>None\<close>, \<^verbatim>\<open>bool\<close>, \<^verbatim>\<open>int\<close>, \<^verbatim>\<open>float\<close>, \<^verbatim>\<open>str\<close>, \<^verbatim>\<open>list\<close> and
  \<^verbatim>\<open>dict\<close>. A finite float is represented by its exact rational value; a dictionary is
  an association list in document order (lookups take the first binding).
\<close>

datatype json =
    JNull
  | JBool bool
  | JInt int
  | JFloat rat
  | JStr string
  | JList "json list"
  | JObj "(string \<times> json) list"

text \<open>
  A \<^verbatim>\<open>jsonpointer.JSONPointer\<close> is the list of its reference tokens; \<^verbatim>\<open>sp/"id"\<close>
  appends one token. Where the source passes \<^verbatim>\<open>None\<close> for a pointer the model uses
  \<open>pointer option\<close>.
\<close>

type_synonym pointer = "string list"

definition pdiv :: "pointer \<Rightarrow> string \<Rightarrow> pointer" where
  "pdiv sp tok = sp @ [tok]"

text \<open>
  The values a field hands to validators and returns from \<^verbatim>\<open>decode\<close>: wire values, the
  standard-library objects \<^verbatim>\<open>fractions.Fraction\<close> (numerator and denominator in
  lowest terms, denominator positive) and \<^verbatim>\<open>uuid.UUID\<close> (its 128-bit integer), and
  any other Python object, known by a label only.
\<close>

datatype pyval = J json | FractionV int int | UUIDV int | PyObject string

text \<open>
  The \<^verbatim>\<open>detail\<close> of an error is either a literal text or a format template together
  with the arguments handed to \<^verbatim>\<open>str.format\<close>.
\<close>

datatype detail = Text string | Fmt string "pyval list"

text \<open>
  Every \<^verbatim>\<open>raise\<close> of the source and every exception of the Python runtime that the
  modelled code can trigger is a value of \<open>error\<close>. The first four are the classes of
  \<^verbatim>\<open>jsonapi.errors\<close> used by the schema code; they carry \<^verbatim>\<open>detail\<close> and
  \<^verbatim>\<open>source_pointer\<close>.
\<close>

datatype error =
    InvalidType detail "pointer option"
  | InvalidValue detail "pointer option"
  | ValidationError detail "pointer option"
  | Conflict detail "pointer option"
  | TypeError string
  | AttributeError string
  | KeyError string
  | NameError string
  | ValueError string
  | IndexError string
  | ZeroDivisionError
  | AssertionError
  | NotImplementedError

fun source_pointer :: "error \<Rightarrow> pointer option" where
  "source_pointer (InvalidType d p) = p"
| "source_pointer (InvalidValue d p) = p"
| "source_pointer (ValidationError d p) = p"
| "source_pointer (Conflict d p) = p"
| "source_pointer e = None"

text \<open>Sequencing of statements that may raise.\<close>

definition seq :: "error + 'a \<Rightarrow> ('a \<Rightarrow> error + 'b) \<Rightarrow> error + 'b" where
  "seq m f = (case m of Inl e \<Rightarrow> Inl e | Inr x \<Rightarrow> f x)"

text \<open>Dictionary access: \<^verbatim>\<open>d.get(k)\<close>, \<^verbatim>\<open>k in d\<close> and \<^verbatim>\<open>d[k]\<close>.\<close>

definition dict_get :: "(string \<times> json) list \<Rightarrow> string \<Rightarrow> json" where
  "dict_get d k = (case map_of d k of None \<Rightarrow> JNull | Some v \<Rightarrow> v)"

definition dict_in :: "string \<Rightarrow> (string \<times> json) list \<Rightarrow> bool" where
  "dict_in k d = (map_of d k \<noteq> None)"

definition dict_item :: "(string \<times> json) list \<Rightarrow> string \<Rightarrow> error + json" where
  "dict_item d k = (case map_of d k of None \<Rightarrow> Inl (KeyError k) | Some v \<Rightarrow> Inr v)"

text \<open>
  \<^verbatim>\<open>isinstance(x, int)\<close> holds for \<^verbatim>\<open>bool\<close> too, since \<^verbatim>\<open>bool\<close> is a subclass of
  \<^verbatim>\<open>int\<close>; \<open>num_value\<close> is the number a comparison sees.
\<close>

fun is_int :: "json \<Rightarrow> bool" where
  "is_int (JInt n) = True"
| "is_int (JBool b) = True"
| "is_int v = False"

fun is_integral_float :: "json \<Rightarrow> bool" where
  "is_integral_float (JFloat r) = (snd (quotient_of r) = 1)"
| "is_integral_float v = False"

fun num_value :: "json \<Rightarrow> rat" where
  "num_value (JInt n) = of_int n"
| "num_value (JBool b) = (if b then 1 else 0)"
| "num_value (JFloat r) = r"
| "num_value v = 0"

fun is_num :: "json \<Rightarrow> bool" where
  "is_num (JInt n) = True"
| "is_num (JBool b) = True"
| "is_num (JFloat r) = True"
| "is_num v = False"

text \<open>
  Python's \<^verbatim>\<open>==\<close> on wire values: numbers (with \<^verbatim>\<open>bool\<close>) compare by value,
  strings by content, lists element by element, dictionaries by key set and the values
  under each key; values of different kinds are unequal. \<open>truthy\<close> is the truth value
  that \<^verbatim>\<open>if\<close>, \<^verbatim>\<open>and\<close> and \<^verbatim>\<open>or\<close> test.
\<close>

lemma size_map_of_less [termination_simp]:
  "map_of e k = Some w \<Longrightarrow> size w < Suc (size_list (size_prod (\<lambda>_. 0) size) e)"
  by (induction e) (auto split: if_splits)

lemma size_zip_left_less [termination_simp]:
  "(x, y) \<in> set (zip xs ys) \<Longrightarrow> size x < Suc (size_list size xs)"
proof -
  assume "(x, y) \<in> set (zip xs ys)"
  then have "x \<in> set xs" by (rule set_zip_leftD)
  then have "size x \<le> size_list size xs" by (rule size_list_estimation') simp
  then show ?thesis by simp
qed

fun py_eq :: "json \<Rightarrow> json \<Rightarrow> bool" where
  "py_eq JNull JNull = True"
| "py_eq (JStr a) (JStr b) = (a = b)"
| "py_eq (JList xs) (JList ys) =
     (length xs = length ys \<and> list_all (\<lambda>(x, y). py_eq x y) (zip xs ys))"
| "py_eq (JObj d) (JObj e) =
     (set (map fst d) = set (map fst e)
      \<and> list_all (\<lambda>(k, v). case map_of e k of None \<Rightarrow> False | Some w \<Rightarrow> py_eq v w) d)"
| "py_eq a b = (is_num a \<and> is_num b \<and> num_value a = num_value b)"

fun truthy :: "json \<Rightarrow> bool" where
  "truthy JNull = False"
| "truthy (JBool b) = b"
| "truthy (JInt n) = (n \<noteq> 0)"
| "truthy (JFloat r) = (r \<noteq> 0)"
| "truthy (JStr s) = (s \<noteq> [])"
| "truthy (JList xs) = (xs \<noteq> [])"
| "truthy (JObj d) = (d \<noteq> [])"

section \<open>Fields (base\_fields.py, fields.py)\<close>

text \<open>
  \<^verbatim>\<open>BaseField.__init__\<close> stores \<^verbatim>\<open>writable\<close> as given, except that the string
  \<^verbatim>\<open>"always"\<close> is replaced by the tuple \<^verbatim>\<open>("never", "creation")\<close>.
\<close>

datatype writable_value = Never_Creation_Tuple | WStr string

text \<open>
  The built-in conversions \<^verbatim>\<open>str(x)\<close> and \<^verbatim>\<open>int(x)\<close> are part of the Python
  runtime. On the arguments whose result the field code fixes (a string for \<^verbatim>\<open>str\<close>,
  a number for \<^verbatim>\<open>int\<close>) they are written out below; on every other argument they
  are parameters of the model.
\<close>

record builtins =
  py_str :: "pyval \<Rightarrow> string"
  py_int :: "pyval \<Rightarrow> error + int"

definition str_of :: "builtins \<Rightarrow> pyval \<Rightarrow> string" where
  "str_of bi v = (case v of J (JStr s) \<Rightarrow> s | _ \<Rightarrow> py_str bi v)"

definition trunc :: "rat \<Rightarrow> int" where
  "trunc r = (if 0 \<le> r then \<lfloor>r\<rfloor> else \<lceil>r\<rceil>)"

definition int_of :: "builtins \<Rightarrow> pyval \<Rightarrow> error + int" where
  "int_of bi v =
     (case v of
        J (JInt n) \<Rightarrow> Inr n
      | J (JBool b) \<Rightarrow> Inr (if b then 1 else 0)
      | J (JFloat r) \<Rightarrow> Inr (trunc r)
      | _ \<Rightarrow> py_int bi v)"

fun bool_of :: "pyval \<Rightarrow> bool" where
  "bool_of (J v) = truthy v"
| "bool_of (FractionV n d) = (n \<noteq> 0)"
| "bool_of (UUIDV u) = True"
| "bool_of (PyObject l) = True"

text \<open>
  \<^verbatim>\<open>x != y\<close> and \<^verbatim>\<open>x == y\<close> for a wire value \<open>x\<close> and any object \<open>y\<close>: a
  \<^verbatim>\<open>Fraction\<close> compares with numbers by value; a \<^verbatim>\<open>UUID\<close> and an object without
  \<^verbatim>\<open>__eq__\<close> equal only themselves.
\<close>

fun pyval_eq :: "json \<Rightarrow> pyval \<Rightarrow> bool" where
  "pyval_eq x (J y) = py_eq x y"
| "pyval_eq x (FractionV n d) = (is_num x \<and> num_value x = of_int n / of_int d)"
| "pyval_eq x (UUIDV u) = False"
| "pyval_eq x (PyObject l) = False"

text \<open>
  A registered validator: the function (\<open>Some e\<close> when it raises \<open>e\<close>), \<^verbatim>\<open>when\<close>
  and \<^verbatim>\<open>context\<close>.
\<close>

record validator =
  validator_fun :: "pyval \<Rightarrow> pointer \<Rightarrow> error option"
  validator_when :: string
  validator_context :: string

text \<open>
  The field classes of the catalog that the development covers, with the attributes
  their constructors add: \<^verbatim>\<open>String.regex\<close> (the compiled pattern, given by its
  \<^verbatim>\<open>fullmatch\<close> predicate), \<^verbatim>\<open>Integer.min/max\<close>, \<^verbatim>\<open>Fraction.min/max\<close>,
  \<^verbatim>\<open>UUID.version\<close>, for \<^verbatim>\<open>ToOneRelationship\<close> \<^verbatim>\<open>dereference\<close>, the string
  \<^verbatim>\<open>require_data\<close> and the set \<^verbatim>\<open>foreign_types\<close>, and \<^verbatim>\<open>Link.normalize\<close>.
\<close>

datatype field_class =
    Attribute
  | String "(string \<Rightarrow> bool) option"
  | Integer "int option" "int option"
  | Boolean
  | Fraction "rat option" "rat option"
  | UUID "int option"
  | ToOneRelationship bool string "string list"
  | Link bool

record field =
  key :: "string option"
  name :: string
  mapped_key :: string
  writable :: writable_value
  required :: string
  fvalidators :: "validator list"
  meta :: bool
  cls :: field_class

text \<open>
  \<^verbatim>\<open>x in ("always", context)\<close> for the stored \<^verbatim>\<open>writable\<close> value and for the
  string \<^verbatim>\<open>required\<close>. A tuple equals neither a string nor \<^verbatim>\<open>None\<close>.
\<close>

fun writable_in :: "writable_value \<Rightarrow> string option \<Rightarrow> bool" where
  "writable_in Never_Creation_Tuple context = False"
| "writable_in (WStr w) context = (w = ''always'' \<or> Some w = context)"

definition str_in :: "string \<Rightarrow> string option \<Rightarrow> bool" where
  "str_in r context = (r = ''always'' \<or> Some r = context)"

text \<open>\<^verbatim>\<open>BaseField.validate_pre_decode\<close> and \<^verbatim>\<open>validate_post_decode\<close>: the loop over
  \<^verbatim>\<open>self.fvalidators\<close>, for \<^verbatim>\<open>when\<close> equal to \<^verbatim>\<open>"pre-decode"\<close> or \<^verbatim>\<open>"post-decode"\<close>.\<close>

fun run_validators ::
  "validator list \<Rightarrow> string \<Rightarrow> pyval \<Rightarrow> pointer \<Rightarrow> string option \<Rightarrow> error + unit" where
  "run_validators [] when data sp context = Inr ()"
| "run_validators (v # vs) when data sp context =
     (if validator_when v \<noteq> when then run_validators vs when data sp context
      else if \<not> str_in (validator_context v) context
        then run_validators vs when data sp context
      else (case validator_fun v data sp of
              Some e \<Rightarrow> Inl e
            | None \<Rightarrow> run_validators vs when data sp context))"

definition BaseField_validate_pre_decode ::
  "field \<Rightarrow> pyval \<Rightarrow> pointer \<Rightarrow> string option \<Rightarrow> error + unit" where
  "BaseField_validate_pre_decode f data sp context =
     run_validators (fvalidators f) ''pre-decode'' data sp context"

definition BaseField_validate_post_decode ::
  "field \<Rightarrow> pyval \<Rightarrow> pointer \<Rightarrow> string option \<Rightarrow> error + unit" where
  "BaseField_validate_post_decode f data sp context =
     run_validators (fvalidators f) ''post-decode'' data sp context"

subsection \<open>The standard-library UUID parser used by the UUID field\<close>

text \<open>
  \<^verbatim>\<open>uuid.UUID(hex=h)\<close> removes the substrings \<^verbatim>\<open>urn:\<close> and \<^verbatim>\<open>uuid:\<close>, strips braces
  from both ends, removes every dash, requires 32 remaining characters and reads them
  with \<^verbatim>\<open>int(hex, 16)\<close>; it raises \<^verbatim>\<open>ValueError\<close> otherwise. The model reads
  hexadecimal digits of either case (the separators and prefixes that \<^verbatim>\<open>int\<close> also
  tolerates are not part of it). \<^verbatim>\<open>UUID.hex\<close> is \<^verbatim>\<open>'%032x' % int\<close>, and
  \<^verbatim>\<open>UUID.version\<close> is bits 76 to 79 when the variant bits 63 and 62 are 1 and 0, else
  \<^verbatim>\<open>None\<close>.
\<close>

function remove_all :: "string \<Rightarrow> string \<Rightarrow> string" where
  "remove_all old s =
     (if old = [] \<or> s = [] then s
      else if take (length old) s = old then remove_all old (drop (length old) s)
      else hd s # remove_all old (tl s))"
  by pat_completeness auto
termination
  by (relation "measure (\<lambda>(old, s). length s)") auto

definition strip_chars :: "string \<Rightarrow> string \<Rightarrow> string" where
  "strip_chars cs s =
     rev (dropWhile (\<lambda>c. c \<in> set cs) (rev (dropWhile (\<lambda>c. c \<in> set cs) s)))"

definition hex_digit :: "char \<Rightarrow> int option" where
  "hex_digit c =
     (let n = (of_char c :: int) in
      if 48 \<le> n \<and> n \<le> 57 then Some (n - 48)
      else if 97 \<le> n \<and> n \<le> 102 then Some (n - 87)
      else if 65 \<le> n \<and> n \<le> 70 then Some (n - 55)
      else None)"

fun hex_value :: "int \<Rightarrow> string \<Rightarrow> int option" where
  "hex_value acc [] = Some acc"
| "hex_value acc (c # cs) =
     (case hex_digit c of None \<Rightarrow> None | Some d \<Rightarrow> hex_value (16 * acc + d) cs)"

definition uuid_of_hex :: "string \<Rightarrow> error + int" where
  "uuid_of_hex h =
     (let h1 = remove_all ''uuid:'' (remove_all ''urn:'' h);
          h2 = remove_all ''-'' (strip_chars ''{}'' h1)
      in if length h2 \<noteq> 32 then Inl (ValueError ''badly formed hexadecimal UUID string'')
         else (case hex_value 0 h2 of
                 None \<Rightarrow> Inl (ValueError ''invalid literal for int() with base 16'')
               | Some n \<Rightarrow> Inr n))"

definition hex_char :: "int \<Rightarrow> char" where
  "hex_char d = (if d < 10 then char_of (48 + d) else char_of (87 + d))"

fun to_hex :: "nat \<Rightarrow> int \<Rightarrow> string" where
  "to_hex 0 n = []"
| "to_hex (Suc k) n = to_hex k (n div 16) @ [hex_char (n mod 16)]"

definition uuid_hex :: "int \<Rightarrow> string" where
  "uuid_hex n = to_hex 32 n"

definition uuid_version :: "int \<Rightarrow> int option" where
  "uuid_version n =
     (if (n div 2 ^ 63) mod 2 = 1 \<and> (n div 2 ^ 62) mod 2 = 0
      then Some ((n div 2 ^ 76) mod 16) else None)"

subsection \<open>Pre-decode validation of the field classes\<close>

text \<open>
  \<^verbatim>\<open>Relationship.validate_resource_identifier\<close> and
  \<^verbatim>\<open>validate_relationship_object\<close> (the \<^verbatim>\<open>ToOneRelationship\<close> override calls the
  base method first). \<^verbatim>\<open>self.require_data\<close> is a string and is tested for truth.
  The unexpected member named in the detail is taken from a set by \<^verbatim>\<open>pop()\<close>; the
  model names the first one in document order.
\<close>

definition validate_resource_identifier ::
  "string list \<Rightarrow> json \<Rightarrow> pointer \<Rightarrow> error + unit" where
  "validate_resource_identifier foreign_types data sp =
     (case data of
        JObj d \<Rightarrow>
          if \<not> (dict_in ''type'' d \<and> dict_in ''id'' d)
            then Inl (InvalidValue (Text ''Must contain a 'type' and an 'id' member.'') (Some sp))
          else if foreign_types \<noteq> []
                  \<and> dict_get d ''type'' \<notin> set (map JStr foreign_types)
            then Inl (InvalidValue (Fmt ''Unexpected type: '{}'.'' [J (dict_get d ''type'')])
                        (Some (pdiv sp ''type'')))
          else Inr ()
      | _ \<Rightarrow> Inl (InvalidType (Text ''Must be an object.'') (Some sp)))"

definition Relationship_validate_relationship_object ::
  "bool \<Rightarrow> string \<Rightarrow> json \<Rightarrow> pointer \<Rightarrow> error + unit" where
  "Relationship_validate_relationship_object dereference require_data data sp =
     (case data of
        JObj d \<Rightarrow>
          if d = []
            then Inl (InvalidValue
                        (Text ''Must contain at least a 'data', 'links' or 'meta' member.'')
                        (Some sp))
          else if filter (\<lambda>k. k \<notin> {''links'', ''data'', ''meta''}) (map fst d) \<noteq> []
            then Inl (InvalidValue
                        (Fmt ''Unexpected member: '{}'.''
                           [J (JStr (hd (filter (\<lambda>k. k \<notin> {''links'', ''data'', ''meta''})
                                           (map fst d))))])
                        (Some sp))
          else if (dereference \<or> require_data \<noteq> []) \<and> \<not> dict_in ''data'' d
            then Inl (InvalidValue (Text ''The 'data' member is required.'') (Some sp))
          else Inr ()
      | _ \<Rightarrow> Inl (InvalidType (Text ''Must be an object.'') (Some sp)))"

definition ToOneRelationship_validate_relationship_object ::
  "bool \<Rightarrow> string \<Rightarrow> string list \<Rightarrow> json \<Rightarrow> pointer \<Rightarrow> error + unit" where
  "ToOneRelationship_validate_relationship_object dereference require_data foreign_types
       data sp =
     seq (Relationship_validate_relationship_object dereference require_data data sp)
       (\<lambda>_. case data of
               JObj d \<Rightarrow>
                 if dict_in ''data'' d \<and> dict_get d ''data'' \<noteq> JNull
                   then validate_resource_identifier foreign_types data (pdiv sp ''data'')
                 else Inr ()
             | _ \<Rightarrow> Inr ())"

text \<open>
  \<^verbatim>\<open>validate_pre_decode\<close> of each field class. Every override ends with
  \<^verbatim>\<open>super().validate_pre_decode\<close>, the validator loop of \<^verbatim>\<open>BaseField\<close>; the UUID
  override has rebound \<^verbatim>\<open>data\<close> to the parsed UUID by then. \<^verbatim>\<open>String\<close> raises
  when the pattern matches, as the source does.
\<close>

definition String_validate_pre_decode ::
  "field \<Rightarrow> (string \<Rightarrow> bool) option \<Rightarrow> json \<Rightarrow> pointer \<Rightarrow> string option \<Rightarrow> error + unit"
  where
  "String_validate_pre_decode f regex data sp context =
     (case data of
        JStr s \<Rightarrow>
          (case regex of
             Some fullmatch \<Rightarrow>
               if fullmatch s
                 then Inl (InvalidValue (Text ''Did not match regex.'') (Some sp))
               else BaseField_validate_pre_decode f (J data) sp context
           | None \<Rightarrow> BaseField_validate_pre_decode f (J data) sp context)
      | _ \<Rightarrow> Inl (InvalidType (Text ''Must be a string.'') (Some sp)))"

definition Integer_validate_pre_decode ::
  "field \<Rightarrow> int option \<Rightarrow> int option \<Rightarrow> json \<Rightarrow> pointer \<Rightarrow> string option \<Rightarrow> error + unit"
  where
  "Integer_validate_pre_decode f minv maxv data sp context =
     (if \<not> is_int data \<and> \<not> is_integral_float data
        then Inl (InvalidType (Text ''Must be an integer.'') (Some sp))
      else if minv \<noteq> None \<and> of_int (the minv) > num_value data
        then Inl (InvalidValue (Fmt ''Must be >= {}.'' [J (JInt (the minv))]) (Some sp))
      else if maxv \<noteq> None \<and> of_int (the maxv) < num_value data
        then Inl (InvalidValue (Fmt ''Must be <= {}.'' [J (JInt (the maxv))]) (Some sp))
      else BaseField_validate_pre_decode f (J data) sp context)"

definition Boolean_validate_pre_decode ::
  "field \<Rightarrow> json \<Rightarrow> pointer \<Rightarrow> string option \<Rightarrow> error + unit" where
  "Boolean_validate_pre_decode f data sp context =
     (case data of
        JBool b \<Rightarrow> BaseField_validate_pre_decode f (J data) sp context
      | _ \<Rightarrow> Inl (InvalidType (Text ''Must be either 'true' or 'false'.'') (Some sp)))"

definition Fraction_validate_pre_decode ::
  "field \<Rightarrow> rat option \<Rightarrow> rat option \<Rightarrow> json \<Rightarrow> pointer \<Rightarrow> string option \<Rightarrow> error + unit"
  where
  "Fraction_validate_pre_decode f minv maxv data sp context =
     (case data of
        JObj d \<Rightarrow>
          if \<not> dict_in ''numerator'' d
            then Inl (InvalidValue (Text ''Does not have a 'numerator' member.'') (Some sp))
          else if \<not> dict_in ''denominator'' d
            then Inl (InvalidValue (Text ''Does not have a 'denominator' member.'') (Some sp))
          else if \<not> is_int (dict_get d ''numerator'')
            then Inl (InvalidValue (Text ''The numerator must be an integer.'')
                        (Some (pdiv sp ''numerator'')))
          else if \<not> is_int (dict_get d ''denominator'')
            then Inl (InvalidValue (Text ''The denominator must be an integer.'')
                        (Some (pdiv sp ''denominator'')))
          else if num_value (dict_get d ''denominator'') = 0
            then Inl (InvalidValue (Text ''The denominator must be not equal to zero.'')
                        (Some (pdiv sp ''denominator'')))
          else
            (let val = num_value (dict_get d ''numerator'')
                         / num_value (dict_get d ''denominator'')
             in if minv \<noteq> None \<and> the minv > val
                  then Inl (InvalidValue (Fmt ''Must be >= {}.'' [J (JFloat (the minv))]) (Some sp))
                else if maxv \<noteq> None \<and> the maxv < val
                  then Inl (InvalidValue (Fmt ''Must be <= {}.'' [J (JFloat (the maxv))]) (Some sp))
                else BaseField_validate_pre_decode f (J data) sp context)
      | _ \<Rightarrow> Inl (InvalidType
                   (Text ''Must be an object with a 'numerator' and 'denominator' member.'')
                   (Some sp)))"

definition UUID_validate_pre_decode ::
  "field \<Rightarrow> int option \<Rightarrow> json \<Rightarrow> pointer \<Rightarrow> string option \<Rightarrow> error + unit" where
  "UUID_validate_pre_decode f version data sp context =
     (case data of
        JStr s \<Rightarrow>
          (case uuid_of_hex s of
             Inl e \<Rightarrow>
               Inl (InvalidValue
                      (Text (''The UUID is badly formed (the representation as ''
                             @ ''hexadecimal string is needed).''))
                      (Some sp))
           | Inr u \<Rightarrow>
               if version \<noteq> None \<and> version \<noteq> uuid_version u
                 then Inl (InvalidValue (Fmt ''Not a UUID{}.'' [J (JInt (the version))]) (Some sp))
               else BaseField_validate_pre_decode f (UUIDV u) sp context)
      | _ \<Rightarrow> Inl (InvalidType (Text ''The UUID must be a hexadecimal string.'') (Some sp)))"

definition validate_pre_decode ::
  "field \<Rightarrow> json \<Rightarrow> pointer \<Rightarrow> string option \<Rightarrow> error + unit" where
  "validate_pre_decode f data sp context =
     (case cls f of
        Attribute \<Rightarrow> BaseField_validate_pre_decode f (J data) sp context
      | String regex \<Rightarrow> String_validate_pre_decode f regex data sp context
      | Integer minv maxv \<Rightarrow> Integer_validate_pre_decode f minv maxv data sp context
      | Boolean \<Rightarrow> Boolean_validate_pre_decode f data sp context
      | Fraction minv maxv \<Rightarrow> Fraction_validate_pre_decode f minv maxv data sp context
      | UUID version \<Rightarrow> UUID_validate_pre_decode f version data sp context
      | ToOneRelationship dereference require_data foreign_types \<Rightarrow>
          seq (ToOneRelationship_validate_relationship_object dereference require_data
                 foreign_types data sp)
            (\<lambda>_. BaseField_validate_pre_decode f (J data) sp context)
      | Link normalise \<Rightarrow> BaseField_validate_pre_decode f (J data) sp context)"

section \<open>Schema (schema.py)\<close>

text \<open>
  A schema instance, as far as the methods below read it: the class attributes set by
  \<^verbatim>\<open>SchemaMeta.__new__\<close> (\<^verbatim>\<open>type\<close>, the values of \<^verbatim>\<open>_japi_attributes\<close>,
  \<^verbatim>\<open>_japi_relationships\<close> and \<^verbatim>\<open>_japi_meta\<close> in dictionary order, and
  \<^verbatim>\<open>_fields_by_key\<close>), \<^verbatim>\<open>resource_class\<close> (by its name, \<open>None\<close> when unset), and the
  \<^verbatim>\<open>"crud"\<close> entry of \<^verbatim>\<open>self.context\<close>. No statement of the source assigns the
  attribute \<^verbatim>\<open>_japi_id\<close> that \<^verbatim>\<open>id\<close> and \<^verbatim>\<open>validate_resource_pre_decode\<close> read, so
  it is a component of its own: \<open>None\<close> when the attribute does not exist, \<open>Some f\<close> when
  a subclass supplies it.
\<close>

record schema =
  typename :: string
  resource_class :: "string option"
  japi_attributes :: "field list"
  japi_relationships :: "field list"
  japi_meta :: "field list"
  fields_by_key :: "(string \<times> field) list"
  japi_id :: "field option"
  crud :: "string option"

text \<open>\<^verbatim>\<open>context = context or self.context.get("crud")\<close>: an empty string is false.\<close>

definition context_or_crud :: "schema \<Rightarrow> string option \<Rightarrow> string option" where
  "context_or_crud s context =
     (case context of
        None \<Rightarrow> crud s
      | Some c \<Rightarrow> if c = [] then crud s else Some c)"

text \<open>
  \<^verbatim>\<open>Schema._validate_field_pre_decode(field, data, sp, context=None)\<close>. The test
  \<^verbatim>\<open>data is (sp is not None)\<close> compares \<^verbatim>\<open>data\<close> by identity with the truth value of
  \<^verbatim>\<open>sp is not None\<close>; only the two \<^verbatim>\<open>bool\<close> singletons can be identical to it.
\<close>

definition validate_field_pre_decode ::
  "schema \<Rightarrow> field \<Rightarrow> json \<Rightarrow> pointer option \<Rightarrow> string option \<Rightarrow> error + unit" where
  "validate_field_pre_decode s f data sp context =
     (let context = context_or_crud s context;
          is_writable = writable_in (writable f) context
      in if \<not> is_writable \<and> sp \<noteq> None
           then Inl (ValidationError (Text ''The field '{}' is readonly.'') sp)
         else
           (let is_required = str_in (required f) context
            in if is_required \<and> data = JBool (sp \<noteq> None)
                 then Inl (InvalidValue (Text ''The field '{}' is required.'') sp)
               else (case sp of
                       Some p \<Rightarrow> validate_pre_decode f data p context
                     | None \<Rightarrow> Inr ())))"

text \<open>
  The three loops of \<^verbatim>\<open>validate_resource_pre_decode\<close> over the attribute,
  relationship and meta fields: \<^verbatim>\<open>field_sp\<close> is \<^verbatim>\<open>None\<close> when the member is absent,
  \<^verbatim>\<open>field_data\<close> is \<^verbatim>\<open>members.get(field.name)\<close>, and no context is passed on.
\<close>

fun validate_fields_pre_decode ::
  "schema \<Rightarrow> field list \<Rightarrow> (string \<times> json) list \<Rightarrow> pointer \<Rightarrow> error + unit" where
  "validate_fields_pre_decode s [] members members_sp = Inr ()"
| "validate_fields_pre_decode s (f # fs) members members_sp =
     (let field_sp = (if dict_in (name f) members then Some (pdiv members_sp (name f))
                      else None);
          field_data = dict_get members (name f)
      in seq (validate_field_pre_decode s f field_data field_sp None)
           (\<lambda>_. validate_fields_pre_decode s fs members members_sp))"

text \<open>
  \<^verbatim>\<open>data.get(member, {})\<close> followed by the \<^verbatim>\<open>isinstance(..., dict)\<close> test and the
  loop, for one of the members \<^verbatim>\<open>attributes\<close>, \<^verbatim>\<open>relationships\<close>, \<^verbatim>\<open>meta\<close>.
\<close>

definition validate_member_pre_decode ::
  "schema \<Rightarrow> field list \<Rightarrow> (string \<times> json) list \<Rightarrow> string \<Rightarrow> pointer \<Rightarrow> error + unit"
  where
  "validate_member_pre_decode s fs d member sp =
     (case (case map_of d member of None \<Rightarrow> JObj [] | Some v \<Rightarrow> v) of
        JObj members \<Rightarrow> validate_fields_pre_decode s fs members (pdiv sp member)
      | _ \<Rightarrow> Inl (InvalidType (Text ''Must be an object.'') (Some (pdiv sp member))))"

text \<open>
  \<^verbatim>\<open>Schema.validate_resource_pre_decode(data, sp, context=None, *, expected_id="")\<close>.
  The arguments of the call that validates the id are evaluated from left to right:
  \<^verbatim>\<open>self._japi_id\<close> first, then \<^verbatim>\<open>data["id"]\<close>.
\<close>

definition validate_resource_pre_decode ::
  "schema \<Rightarrow> json \<Rightarrow> pointer \<Rightarrow> string option \<Rightarrow> pyval \<Rightarrow> error + unit" where
  "validate_resource_pre_decode s data sp context expected_id =
     (let context = context_or_crud s context
      in case data of
           JObj d \<Rightarrow>
             if (bool_of expected_id \<or> context = Some ''update'') \<and> \<not> dict_in ''id'' d
               then Inl (InvalidValue (Text ''The 'id' member is missing.'')
                           (Some (pdiv sp ''id'')))
             else if bool_of expected_id \<and> \<not> pyval_eq (dict_get d ''id'') expected_id
               then Inl (Conflict
                           (Fmt ''The id '{}' does not match the endpoint ('{}').''
                              [J (dict_get d ''id''), expected_id])
                           (Some (pdiv sp ''id'')))
             else
               (case japi_id s of
                  None \<Rightarrow> Inl (AttributeError ''_japi_id'')
                | Some id_field \<Rightarrow>
                    seq (dict_item d ''id'')
                      (\<lambda>id_data.
                    seq (validate_field_pre_decode s id_field id_data
                           (Some (pdiv sp ''id'')) None)
                      (\<lambda>_.
                    seq (validate_member_pre_decode s (japi_attributes s) d ''attributes'' sp)
                      (\<lambda>_.
                    seq (validate_member_pre_decode s (japi_relationships s) d
                           ''relationships'' sp)
                      (\<lambda>_. validate_member_pre_decode s (japi_meta s) d ''meta'' sp)))))
         | _ \<Rightarrow> Inl (InvalidType (Text ''Must be an object.'') (Some sp)))"

section \<open>Decoding and encoding (fields.py, base\_fields.py)\<close>

text \<open>
  \<^verbatim>\<open>fractions.Fraction(n, d)\<close>: \<^verbatim>\<open>ZeroDivisionError\<close> for a zero denominator, else
  the fraction in lowest terms with a positive denominator.
\<close>

definition make_fraction :: "int \<Rightarrow> int \<Rightarrow> error + pyval" where
  "make_fraction n d =
     (if d = 0 then Inl ZeroDivisionError
      else Inr (FractionV (sgn d * n div gcd n d) (\<bar>d\<bar> div gcd n d)))"

text \<open>
  \<^verbatim>\<open>Fraction.decode\<close> reads \<^verbatim>\<open>data[0]\<close> and \<^verbatim>\<open>data[1]\<close>. On a dictionary from
  JSON (string keys) the subscript \<^verbatim>\<open>0\<close> raises \<^verbatim>\<open>KeyError\<close>; on a list it is the
  element; on a string it is the one-character string; other wire values cannot be
  subscripted.
\<close>

definition subscript :: "json \<Rightarrow> nat \<Rightarrow> error + json" where
  "subscript data i =
     (case data of
        JObj d \<Rightarrow> Inl (KeyError (if i = 0 then ''0'' else ''1''))
      | JList xs \<Rightarrow> if i < length xs then Inr (xs ! i)
                     else Inl (IndexError ''list index out of range'')
      | JStr cs \<Rightarrow> if i < length cs then Inr (JStr [cs ! i])
                    else Inl (IndexError ''string index out of range'')
      | _ \<Rightarrow> Inl (TypeError ''object is not subscriptable''))"

definition Fraction_decode :: "builtins \<Rightarrow> json \<Rightarrow> error + pyval" where
  "Fraction_decode bi data =
     seq (subscript data 0) (\<lambda>a.
     seq (int_of bi (J a)) (\<lambda>n.
     seq (subscript data 1) (\<lambda>b.
     seq (int_of bi (J b)) (\<lambda>d. make_fraction n d))))"

text \<open>
  \<^verbatim>\<open>Fraction.encode\<close> reads the attributes \<^verbatim>\<open>numerator\<close> and \<^verbatim>\<open>denominator\<close>,
  which \<^verbatim>\<open>int\<close> and \<^verbatim>\<open>bool\<close> have as well.
\<close>

definition Fraction_encode :: "pyval \<Rightarrow> error + pyval" where
  "Fraction_encode data =
     (case data of
        FractionV n d \<Rightarrow>
          Inr (J (JObj [(''numerator'', JInt n), (''denominator'', JInt d)]))
      | J (JInt n) \<Rightarrow>
          Inr (J (JObj [(''numerator'', JInt n), (''denominator'', JInt 1)]))
      | J (JBool b) \<Rightarrow>
          Inr (J (JObj [(''numerator'', JInt (if b then 1 else 0)),
                        (''denominator'', JInt 1)]))
      | _ \<Rightarrow> Inl (AttributeError ''numerator''))"

text \<open>
  \<^verbatim>\<open>UUID.decode\<close> is \<^verbatim>\<open>uuid.UUID(hex=data)\<close>; \<^verbatim>\<open>UUID.encode\<close> is
  \<^verbatim>\<open>data.hex\<close>, which on a \<^verbatim>\<open>float\<close> is a bound method and on other objects
  does not exist.
\<close>

definition UUID_decode :: "json \<Rightarrow> error + pyval" where
  "UUID_decode data =
     (case data of
        JStr s \<Rightarrow> (case uuid_of_hex s of Inl e \<Rightarrow> Inl e | Inr u \<Rightarrow> Inr (UUIDV u))
      | JNull \<Rightarrow> Inl (TypeError ''one of the hex, bytes, bytes_le, fields, or int arguments must be given'')
      | _ \<Rightarrow> Inl (AttributeError ''replace''))"

definition UUID_encode :: "pyval \<Rightarrow> error + pyval" where
  "UUID_encode data =
     (case data of
        UUIDV u \<Rightarrow> Inr (J (JStr (uuid_hex u)))
      | J (JFloat r) \<Rightarrow> Inr (PyObject ''float.hex'')
      | _ \<Rightarrow> Inl (AttributeError ''hex''))"

text \<open>
  \<^verbatim>\<open>ToOneRelationship.encode(schema, data, *, links=None)\<close> with the default
  \<^verbatim>\<open>links\<close>, on a schema that is not bound to an API (\<^verbatim>\<open>schema.api\<close> is
  \<^verbatim>\<open>None\<close>, the default of \<^verbatim>\<open>Schema.__init__\<close>).
\<close>

definition ToOneRelationship_encode :: "pyval \<Rightarrow> error + pyval" where
  "ToOneRelationship_encode data =
     (case data of
        J JNull \<Rightarrow> Inr (J (JObj [(''data'', JNull)]))
      | J (JObj d) \<Rightarrow>
          if dict_in ''type'' d \<and> dict_in ''id'' d then Inr (J (JObj [(''data'', JObj d)]))
          else Inr (J (JObj d))
      | _ \<Rightarrow> Inl (AttributeError ''ensure_identifier_object''))"

text \<open>
  \<^verbatim>\<open>Link.encode\<close>: a string becomes \<^verbatim>\<open>{"href": data}\<close> unless normalization is
  off; anything but a string or a mapping fails the assertion.
\<close>

definition Link_encode :: "bool \<Rightarrow> pyval \<Rightarrow> error + pyval" where
  "Link_encode normalise data =
     (if \<not> normalise then Inr data
      else (case data of
              J (JStr s) \<Rightarrow> Inr (J (JObj [(''href'', JStr s)]))
            | J (JObj d) \<Rightarrow> Inr data
            | _ \<Rightarrow> Inl AssertionError))"

text \<open>
  \<^verbatim>\<open>field.decode(schema, data, sp)\<close> and \<^verbatim>\<open>field.encode(schema, data)\<close> by field
  class. \<^verbatim>\<open>Attribute\<close>, \<^verbatim>\<open>String\<close>, \<^verbatim>\<open>Boolean\<close> and the relationship inherit the
  identity \<^verbatim>\<open>decode\<close> of \<^verbatim>\<open>BaseField\<close>; \<^verbatim>\<open>Attribute\<close> inherits its identity
  \<^verbatim>\<open>encode\<close>.
\<close>

definition decode :: "builtins \<Rightarrow> field \<Rightarrow> json \<Rightarrow> error + pyval" where
  "decode bi f data =
     (case cls f of
        Attribute \<Rightarrow> Inr (J data)
      | String regex \<Rightarrow> Inr (J data)
      | Integer minv maxv \<Rightarrow> seq (int_of bi (J data)) (\<lambda>n. Inr (J (JInt n)))
      | Boolean \<Rightarrow> Inr (J data)
      | Fraction minv maxv \<Rightarrow> Fraction_decode bi data
      | UUID version \<Rightarrow> UUID_decode data
      | ToOneRelationship dereference require_data foreign_types \<Rightarrow> Inr (J data)
      | Link normalise \<Rightarrow> Inr (J data))"

definition encode :: "builtins \<Rightarrow> field \<Rightarrow> pyval \<Rightarrow> error + pyval" where
  "encode bi f data =
     (case cls f of
        Attribute \<Rightarrow> Inr data
      | String regex \<Rightarrow> Inr (J (JStr (str_of bi data)))
      | Integer minv maxv \<Rightarrow> seq (int_of bi data) (\<lambda>n. Inr (J (JInt n)))
      | Boolean \<Rightarrow> Inr (J (JBool (bool_of data)))
      | Fraction minv maxv \<Rightarrow> Fraction_encode data
      | UUID version \<Rightarrow> UUID_encode data
      | ToOneRelationship dereference require_data foreign_types \<Rightarrow>
          ToOneRelationship_encode data
      | Link normalise \<Rightarrow> Link_encode normalise data)"

section \<open>Resources and the CRUD methods of Schema\<close>

text \<open>
  A resource object is given by its attributes; every resource object of the model is
  an instance of the schema's \<^verbatim>\<open>resource_class\<close>. The fields of the model have no
  custom getter or setter, so \<^verbatim>\<open>BaseField.get\<close> and \<^verbatim>\<open>BaseField.set\<close> use
  \<^verbatim>\<open>default_get\<close> (\<^verbatim>\<open>getattr\<close>) and \<^verbatim>\<open>default_set\<close> (\<^verbatim>\<open>setattr\<close>).
\<close>

type_synonym resource = "(string \<times> pyval) list"

definition BaseField_get :: "field \<Rightarrow> resource \<Rightarrow> error + pyval" where
  "BaseField_get f r =
     (if mapped_key f \<noteq> []
        then (case map_of r (mapped_key f) of
                None \<Rightarrow> Inl (AttributeError (mapped_key f))
              | Some v \<Rightarrow> Inr v)
      else Inr (J JNull))"

definition BaseField_set :: "field \<Rightarrow> resource \<Rightarrow> pyval \<Rightarrow> error + resource" where
  "BaseField_set f r data =
     (if writable f = WStr ''never'' then Inl AssertionError
      else if mapped_key f \<noteq> [] then Inr (AList.update (mapped_key f) data r)
      else Inr r)"

text \<open>\<^verbatim>\<open>Schema.id(resource)\<close>: get and encode through \<^verbatim>\<open>self._japi_id\<close>.\<close>

definition schema_id :: "builtins \<Rightarrow> schema \<Rightarrow> resource \<Rightarrow> error + pyval" where
  "schema_id bi s r =
     (case japi_id s of
        None \<Rightarrow> Inl (AttributeError ''_japi_id'')
      | Some id_field \<Rightarrow> seq (BaseField_get id_field r) (\<lambda>data. encode bi id_field data))"

text \<open>
  The memo of \<^verbatim>\<open>decode_resource\<close> maps a field key to the pair of decoded value and
  source pointer. The first statement of \<^verbatim>\<open>decode_resource\<close> is
  \<^verbatim>\<open>memo = OrderedDict()\<close>; \<^verbatim>\<open>schema.py\<close> imports \<^verbatim>\<open>collections\<close> but binds no
  name \<^verbatim>\<open>OrderedDict\<close>, so the call raises \<^verbatim>\<open>NameError\<close> before any field is
  decoded.
\<close>

type_synonym memo = "(string \<times> pyval \<times> pointer option) list"

definition decode_resource :: "builtins \<Rightarrow> schema \<Rightarrow> json \<Rightarrow> pointer \<Rightarrow> error + memo" where
  "decode_resource bi s data sp = Inl (NameError ''OrderedDict'')"

text \<open>
  \<^verbatim>\<open>validate_resource_post_decode\<close> looks each key up in \<^verbatim>\<open>self._field_by_key\<close>, an
  attribute that does not exist (the class attribute is \<^verbatim>\<open>_fields_by_key\<close>); an empty
  memo never reaches the lookup.
\<close>

definition validate_resource_post_decode ::
  "schema \<Rightarrow> memo \<Rightarrow> string option \<Rightarrow> error + unit" where
  "validate_resource_post_decode s m context =
     (case m of [] \<Rightarrow> Inr () | item # items \<Rightarrow> Inl (AttributeError ''_field_by_key''))"

text \<open>
  The dictionary comprehension of \<^verbatim>\<open>create_resource\<close>:
  \<^verbatim>\<open>{self._fields_by_key[key].mapped_key: data for key, (data, sp) in memo.items()}\<close>.
\<close>

fun init_args :: "schema \<Rightarrow> memo \<Rightarrow> (string \<times> pyval) list \<Rightarrow> error + (string \<times> pyval) list"
  where
  "init_args s [] init = Inr init"
| "init_args s ((k, (data, sp)) # items) init =
     (case map_of (fields_by_key s) k of
        None \<Rightarrow> Inl (KeyError k)
      | Some f \<Rightarrow> init_args s items (AList.update (mapped_key f) data init))"

text \<open>
  \<^verbatim>\<open>Schema.create_resource(data, sp)\<close>. The resource class is called with the collected
  keyword arguments; the model's class keeps them as the attributes of the new object.
  Calling \<^verbatim>\<open>None\<close> raises \<^verbatim>\<open>TypeError\<close>. (Pre-decode validation has rejected
  every \<^verbatim>\<open>data\<close> that is not a dictionary by the time \<^verbatim>\<open>"id" in data\<close> is
  evaluated.)
\<close>

definition create_resource :: "builtins \<Rightarrow> schema \<Rightarrow> json \<Rightarrow> pointer \<Rightarrow> error + resource"
  where
  "create_resource bi s data sp =
     seq (validate_resource_pre_decode s data sp (Some ''create'') (J (JStr []))) (\<lambda>_.
     seq (decode_resource bi s data sp) (\<lambda>m.
     seq (validate_resource_post_decode s m (Some ''create'')) (\<lambda>_.
     seq (init_args s m []) (\<lambda>init.
       (let init' = (case data of
                       JObj d \<Rightarrow> if dict_in ''id'' d
                                   then AList.update ''id'' (J (dict_get d ''id'')) init
                                 else init
                     | _ \<Rightarrow> init)
        in case resource_class s of
             None \<Rightarrow> Inl (TypeError ''object is not callable'')
           | Some c \<Rightarrow> Inr init')))))"

text \<open>
  The argument \<^verbatim>\<open>resource\<close> of \<^verbatim>\<open>update_resource\<close> is the id of the resource or the
  resource instance. \<^verbatim>\<open>isinstance(resource, self.resource_class)\<close> raises
  \<^verbatim>\<open>TypeError\<close> when \<^verbatim>\<open>resource_class\<close> is \<^verbatim>\<open>None\<close>.
\<close>

datatype resource_arg = ById json | Instance resource

definition isinstance_resource_class :: "schema \<Rightarrow> resource_arg \<Rightarrow> error + bool" where
  "isinstance_resource_class s resource =
     (case resource_class s of
        None \<Rightarrow> Inl (TypeError ''isinstance() arg 2 must be a type or tuple of types'')
      | Some c \<Rightarrow> (case resource of ById i \<Rightarrow> Inr False | Instance r \<Rightarrow> Inr True))"

text \<open>\<^verbatim>\<open>Schema.query_resource\<close> must be overridden; the base method raises.\<close>

definition query_resource :: "schema \<Rightarrow> json \<Rightarrow> error + resource" where
  "query_resource s resource_id = Inl NotImplementedError"

text \<open>
  The final loop of \<^verbatim>\<open>update_resource\<close>: \<^verbatim>\<open>field.set\<close> for every entry of the
  memo, mutating the resource in place. The result pairs the state of the resource
  when the loop stops with the outcome.
\<close>

fun set_fields :: "schema \<Rightarrow> memo \<Rightarrow> resource \<Rightarrow> resource \<times> (error + unit)" where
  "set_fields s [] r = (r, Inr ())"
| "set_fields s ((k, (data, sp)) # items) r =
     (case map_of (fields_by_key s) k of
        None \<Rightarrow> (r, Inl (KeyError k))
      | Some f \<Rightarrow> (case BaseField_set f r data of
                     Inl e \<Rightarrow> (r, Inl e)
                   | Inr r' \<Rightarrow> set_fields s items r'))"

text \<open>
  \<^verbatim>\<open>resource_id\<close> of \<^verbatim>\<open>update_resource\<close>: \<^verbatim>\<open>self.id(resource)\<close> for an instance,
  the argument itself otherwise.
\<close>

definition resource_id_of :: "builtins \<Rightarrow> schema \<Rightarrow> resource_arg \<Rightarrow> error + pyval" where
  "resource_id_of bi s resource =
     seq (isinstance_resource_class s resource) (\<lambda>_.
       case resource of
         Instance r \<Rightarrow> schema_id bi s r
       | ById i \<Rightarrow> Inr (J i))"

text \<open>
  \<^verbatim>\<open>Schema.update_resource(resource, data, sp)\<close>. The first component of the result is
  the resource argument as the call leaves it (only the final loop mutates a resource
  instance, in place); the second is the outcome.
\<close>

definition update_resource ::
  "builtins \<Rightarrow> schema \<Rightarrow> resource_arg \<Rightarrow> json \<Rightarrow> pointer \<Rightarrow> resource_arg \<times> (error + unit)"
  where
  "update_resource bi s resource data sp =
     (case seq (resource_id_of bi s resource) (\<lambda>resource_id.
           seq (validate_resource_pre_decode s data sp (Some ''update'') resource_id) (\<lambda>_.
           seq (decode_resource bi s data sp) (\<lambda>m.
           seq (validate_resource_post_decode s m (Some ''update'')) (\<lambda>_. Inr m)))) of
        Inl e \<Rightarrow> (resource, Inl e)
      | Inr m \<Rightarrow>
          (case resource of
             Instance r \<Rightarrow> (case set_fields s m r of (r', out) \<Rightarrow> (Instance r', out))
           | ById i \<Rightarrow>
               (case query_resource s i of
                  Inl e \<Rightarrow> (resource, Inl e)
                | Inr r \<Rightarrow> (resource, snd (set_fields s m r)))))"

section \<open>Field constructors (base\_fields.py, fields.py)\<close>

text \<open>
  A constructor call passes positional arguments and keyword arguments (distinct
  names). An argument is \<^verbatim>\<open>None\<close>, a \<^verbatim>\<open>bool\<close>, an \<^verbatim>\<open>int\<close>, a \<^verbatim>\<open>str\<close>, a list, a
  field, or some other object (a callable, for instance) that is neither iterable nor
  has a \<^verbatim>\<open>name\<close>.
\<close>

datatype pyarg =
    Arg_None
  | Arg_Bool bool
  | Arg_Int int
  | Arg_Str string
  | Arg_List "pyarg list"
  | Arg_Field field
  | Arg_Object string

type_synonym kwargs = "(string \<times> pyarg) list"

fun arg_truthy :: "pyarg \<Rightarrow> bool" where
  "arg_truthy Arg_None = False"
| "arg_truthy (Arg_Bool b) = b"
| "arg_truthy (Arg_Int n) = (n \<noteq> 0)"
| "arg_truthy (Arg_Str s) = (s \<noteq> [])"
| "arg_truthy (Arg_List xs) = (xs \<noteq> [])"
| "arg_truthy (Arg_Field f) = True"
| "arg_truthy (Arg_Object l) = True"

text \<open>The value bound to a keyword parameter with a default.\<close>

definition kwarg :: "kwargs \<Rightarrow> string \<Rightarrow> pyarg \<Rightarrow> pyarg" where
  "kwarg kw k dflt = (case map_of kw k of None \<Rightarrow> dflt | Some v \<Rightarrow> v)"

text \<open>The keyword arguments that a signature without \<^verbatim>\<open>**kargs\<close> does not accept.\<close>

definition unexpected :: "string list \<Rightarrow> kwargs \<Rightarrow> string list" where
  "unexpected allowed kw = filter (\<lambda>k. k \<notin> set allowed) (map fst kw)"

text \<open>The keyword arguments left in \<^verbatim>\<open>**kargs\<close> after the named parameters.\<close>

definition remaining :: "string list \<Rightarrow> kwargs \<Rightarrow> kwargs" where
  "remaining named kw = filter (\<lambda>(k, v). k \<notin> set named) kw"

text \<open>
  The attributes \<^verbatim>\<open>name\<close> and \<^verbatim>\<open>mapped_key\<close> are strings in the field record; an
  argument of another type is kept as the empty string.
\<close>

fun arg_str :: "pyarg \<Rightarrow> string" where
  "arg_str (Arg_Str s) = s"
| "arg_str a = []"

definition policy_names :: "pyarg list" where
  "policy_names = [Arg_Str ''always'', Arg_Str ''never'', Arg_Str ''creation'', Arg_Str ''update'']"

text \<open>
  \<^verbatim>\<open>BaseField.__init__(self, *, name="", mapped_key="", writable="always",
  required="never", fget=None, fset=None)\<close>: every parameter after \<^verbatim>\<open>self\<close> is
  keyword-only, so a positional argument is a \<^verbatim>\<open>TypeError\<close>. \<open>args\<close> are the
  positional arguments after \<^verbatim>\<open>self\<close>.
\<close>

definition BaseField_init :: "pyarg list \<Rightarrow> kwargs \<Rightarrow> error + field" where
  "BaseField_init args kw =
     (if args \<noteq> []
        then Inl (TypeError ''__init__() takes 1 positional argument but more were given'')
      else if unexpected [''name'', ''mapped_key'', ''writable'', ''required'', ''fget'', ''fset'']
                kw \<noteq> []
        then Inl (TypeError ''__init__() got an unexpected keyword argument'')
      else
        (let w = kwarg kw ''writable'' (Arg_Str ''always'');
             r = kwarg kw ''required'' (Arg_Str ''never'')
         in if w \<notin> set policy_names then Inl AssertionError
            else if r \<notin> set policy_names then Inl AssertionError
            else Inr \<lparr>key = None,
                      name = arg_str (kwarg kw ''name'' (Arg_Str [])),
                      mapped_key = arg_str (kwarg kw ''mapped_key'' (Arg_Str [])),
                      writable = (if w = Arg_Str ''always'' then Never_Creation_Tuple
                                  else WStr (arg_str w)),
                      required = arg_str r,
                      fvalidators = [],
                      meta = False,
                      cls = Attribute\<rparr>))"

text \<open>\<^verbatim>\<open>Attribute.__init__(self, *, meta=False, **kargs)\<close>.\<close>

definition Attribute_init :: "pyarg list \<Rightarrow> kwargs \<Rightarrow> error + field" where
  "Attribute_init args kw =
     (if args \<noteq> []
        then Inl (TypeError ''__init__() takes 1 positional argument but more were given'')
      else seq (BaseField_init [] (remaining [''meta''] kw))
             (\<lambda>f. Inr (f\<lparr>meta := arg_truthy (kwarg kw ''meta'' (Arg_Bool False))\<rparr>)))"

text \<open>
  \<^verbatim>\<open>Integer.__init__(self, *, min=None, max=None, **kargs)\<close>, for bounds that are
  integers or \<^verbatim>\<open>None\<close>.
\<close>

definition Integer_init :: "int option \<Rightarrow> int option \<Rightarrow> pyarg list \<Rightarrow> kwargs \<Rightarrow> error + field"
  where
  "Integer_init minv maxv args kw =
     (if args \<noteq> []
        then Inl (TypeError ''__init__() takes 1 positional argument but more were given'')
      else seq (Attribute_init [] kw)
             (\<lambda>f. if minv = None \<or> maxv = None \<or> the minv \<le> the maxv
                   then Inr (f\<lparr>cls := Integer minv maxv\<rparr>)
                   else Inl AssertionError))"

text \<open>
  \<^verbatim>\<open>Link.__init__(self, href="", *, link_of="<resource>", name="", fget=None,
  normalize=True)\<close>. Its first statement is
  \<^verbatim>\<open>super().__init__(self, name=name, writable="never", fget=fget)\<close>: the bound
  method receives \<^verbatim>\<open>self\<close> once more, as a positional argument.
\<close>

definition Link_init :: "pyarg list \<Rightarrow> kwargs \<Rightarrow> error + field" where
  "Link_init args kw =
     (if length args > 1
        then Inl (TypeError ''__init__() takes from 1 to 2 positional arguments but more were given'')
      else if unexpected [''href'', ''link_of'', ''name'', ''fget'', ''normalize''] kw \<noteq> []
        then Inl (TypeError ''__init__() got an unexpected keyword argument'')
      else if args \<noteq> [] \<and> map_of kw ''href'' \<noteq> None
        then Inl (TypeError ''__init__() got multiple values for argument href'')
      else seq (BaseField_init [Arg_Object ''self'']
                  [(''name'', kwarg kw ''name'' (Arg_Str [])),
                   (''writable'', Arg_Str ''never''),
                   (''fget'', kwarg kw ''fget'' Arg_None)])
             (\<lambda>f. Inr (f\<lparr>cls := Link (arg_truthy (kwarg kw ''normalize'' (Arg_Bool True)))\<rparr>)))"

text \<open>
  \<^verbatim>\<open>LinksObjectMixin.__init__(self, links=None)\<close> builds
  \<^verbatim>\<open>{link.name: link for link in links}\<close>: the argument must be iterable and each
  element must have a \<^verbatim>\<open>name\<close>.
\<close>

fun link_names :: "pyarg list \<Rightarrow> error + (string \<times> field) list" where
  "link_names [] = Inr []"
| "link_names (Arg_Field f # xs) =
     seq (link_names xs) (\<lambda>rest. Inr (AList.update (name f) f rest))"
| "link_names (x # xs) = Inl (AttributeError ''name'')"

definition LinksObjectMixin_init :: "pyarg \<Rightarrow> error + (string \<times> field) list" where
  "LinksObjectMixin_init links =
     (case links of
        Arg_List xs \<Rightarrow> link_names (rev xs)
      | Arg_Str s \<Rightarrow> if s = [] then Inr [] else Inl (AttributeError ''name'')
      | _ \<Rightarrow> Inl (TypeError ''object is not iterable''))"

text \<open>
  \<^verbatim>\<open>frozenset(foreign_types or [])\<close>: a false argument gives the empty set; otherwise
  the argument must be iterable and its elements hashable. The type names kept are the
  strings among the elements.
\<close>

fun hashable :: "pyarg \<Rightarrow> bool" where
  "hashable (Arg_List xs) = False"
| "hashable a = True"

definition foreign_type_set :: "pyarg \<Rightarrow> error + string list" where
  "foreign_type_set a =
     (if \<not> arg_truthy a then Inr []
      else (case a of
              Arg_List xs \<Rightarrow>
                if filter (\<lambda>x. \<not> hashable x) xs \<noteq> [] then Inl (TypeError ''unhashable type'')
                else Inr (map arg_str (filter (\<lambda>x. case x of Arg_Str s \<Rightarrow> True | _ \<Rightarrow> False) xs))
            | Arg_Str s \<Rightarrow> Inr (map (\<lambda>c. [c]) s)
            | _ \<Rightarrow> Inl (TypeError ''object is not iterable'')))"

text \<open>
  \<^verbatim>\<open>Relationship.__init__(self, *, dereference=True, require_data="always",
  foreign_types=None, finclude=None, fquery=None, links=None, **kargs)\<close>. It ends by
  adding the default links \<^verbatim>\<open>Link("self", fget=...)\<close> and
  \<^verbatim>\<open>Link("related", fget=...)\<close>. \<^verbatim>\<open>ToOneRelationship\<close> defines no initializer of
  its own, so this is its constructor as well.
\<close>

definition Relationship_init :: "pyarg list \<Rightarrow> kwargs \<Rightarrow> error + field" where
  "Relationship_init args kw =
     (if args \<noteq> []
        then Inl (TypeError ''__init__() takes 1 positional argument but more were given'')
      else
        seq (BaseField_init []
               (remaining [''dereference'', ''require_data'', ''foreign_types'', ''finclude'',
                           ''fquery'', ''links''] kw)) (\<lambda>f.
        seq (LinksObjectMixin_init (kwarg kw ''links'' Arg_None)) (\<lambda>links.
        seq (foreign_type_set (kwarg kw ''foreign_types'' Arg_None)) (\<lambda>foreign_types.
        seq (if kwarg kw ''require_data'' (Arg_Str ''always'')
                  \<in> set [Arg_Str ''never'', Arg_Str ''always'', Arg_Str ''oncreation'',
                          Arg_Str ''onupdate'']
               then Inr () else Inl AssertionError) (\<lambda>_.
        seq (Link_init [Arg_Str ''self''] [(''fget'', Arg_Object ''lambda'')]) (\<lambda>self_link.
        seq (Link_init [Arg_Str ''related''] [(''fget'', Arg_Object ''lambda'')]) (\<lambda>related_link.
          Inr (f\<lparr>cls := ToOneRelationship
                           (arg_truthy (kwarg kw ''dereference'' (Arg_Bool True)))
                           (arg_str (kwarg kw ''require_data'' (Arg_Str ''always'')))
                           foreign_types\<rparr>))))))))"

text \<open>
  \<^verbatim>\<open>ToManyRelationship.__init__(self, *, fadd=None, fremove=None, pagination=None,
  **kargs)\<close> starts with \<^verbatim>\<open>super().__init__(**kargs)\<close> and then stores its three
  arguments, which are not part of the field record.
\<close>

definition ToManyRelationship_init :: "pyarg list \<Rightarrow> kwargs \<Rightarrow> error + field" where
  "ToManyRelationship_init args kw =
     (if args \<noteq> []
        then Inl (TypeError ''__init__() takes 1 positional argument but more were given'')
      else Relationship_init [] (remaining [''fadd'', ''fremove'', ''pagination''] kw))"

text \<open>
  \<^verbatim>\<open>SchemaMeta.__new__\<close> gives a field found under \<^verbatim>\<open>key\<close> in the class body its
  key, and the key as \<^verbatim>\<open>name\<close> and \<^verbatim>\<open>mapped_key\<close> where these are empty.
\<close>

definition bind_key :: "string \<Rightarrow> field \<Rightarrow> field" where
  "bind_key k f =
     f\<lparr>key := Some k,
       name := (if name f \<noteq> [] then name f else k),
       mapped_key := (if mapped_key f \<noteq> [] then mapped_key f else k)\<rparr>"

section \<open>The articles scenario\<close>

text \<open>
  The schema of the scenario: type \<^verbatim>\<open>articles\<close>, the attribute \<^verbatim>\<open>title\<close>, a
  \<^verbatim>\<open>String\<close> required on creation (\<^verbatim>\<open>String(regex="", required="creation")\<close>: the
  class needs a pattern, and the empty pattern matches the empty string only), and the
  to-one relationship \<^verbatim>\<open>author\<close> with the default arguments. The schema class as
  \<^verbatim>\<open>SchemaMeta\<close> builds it has no \<^verbatim>\<open>_japi_id\<close>; \<open>articles_with_id\<close> is the same
  schema with a plain \<^verbatim>\<open>Attribute\<close> supplied as \<^verbatim>\<open>_japi_id\<close>.
\<close>

definition title_field :: field where
  "title_field =
     \<lparr>key = Some ''title'', name = ''title'', mapped_key = ''title'',
      writable = Never_Creation_Tuple, required = ''creation'', fvalidators = [],
      meta = False, cls = String (Some (\<lambda>s. s = []))\<rparr>"

definition author_field :: field where
  "author_field =
     \<lparr>key = Some ''author'', name = ''author'', mapped_key = ''author'',
      writable = Never_Creation_Tuple, required = ''never'', fvalidators = [],
      meta = False, cls = ToOneRelationship True ''always'' []\<rparr>"

definition id_field :: field where
  "id_field =
     \<lparr>key = Some ''id'', name = ''id'', mapped_key = ''id'',
      writable = Never_Creation_Tuple, required = ''never'', fvalidators = [],
      meta = False, cls = Attribute\<rparr>"

definition articles_schema :: schema where
  "articles_schema =
     \<lparr>typename = ''articles'', resource_class = Some ''Article'',
      japi_attributes = [title_field], japi_relationships = [author_field],
      japi_meta = [], fields_by_key = [], japi_id = None, crud = None\<rparr>"

definition articles_with_id :: schema where
  "articles_with_id = articles_schema\<lparr>japi_id := Some id_field\<rparr>"

text \<open>The resource object \<^verbatim>\<open>{"type": "articles", "attributes": {"title": "Hello"}}\<close>.\<close>

definition hello_article :: json where
  "hello_article =
     JObj [(''type'', JStr ''articles''), (''attributes'', JObj [(''title'', JStr ''Hello'')])]"


text \<open>
  An instance of the parameters for evaluating examples: the conversions that the
  model leaves open yield the empty string and \<^verbatim>\<open>TypeError\<close>.
\<close>

definition example_builtins :: builtins where
  "example_builtins =
     \<lparr>py_str = (\<lambda>v. []), py_int = (\<lambda>v. Inl (TypeError ''int() argument''))\<rparr>"

section \<open>Inclusion of related resources (api.py)\<close>

text \<open>
  A resource identifier is the pair of type name and id. \<^verbatim>\<open>API.include\<close> keeps two
  dictionaries: \<^verbatim>\<open>included_resources\<close>, from identifiers to resource objects, and
  \<^verbatim>\<open>included_relationships\<close>, a \<^verbatim>\<open>defaultdict(set)\<close> of relationship names.
  The latter is indexed with the parent resource object in the test of \<^verbatim>\<open>_include\<close>
  and with the identifier of a relative where a relative is recorded, so its keys are
  of both kinds. Reading a missing key of a \<^verbatim>\<open>defaultdict\<close> stores the empty set
  under it.
\<close>

type_synonym jsonapi_id = "string \<times> string"

datatype rel_key = Key_Resource resource | Key_Identifier jsonapi_id

record inclusion =
  included_resources :: "jsonapi_id \<rightharpoonup> resource"
  included_relationships :: "rel_key \<rightharpoonup> string set"

definition no_inclusion :: inclusion where
  "no_inclusion = \<lparr>included_resources = Map.empty, included_relationships = Map.empty\<rparr>"

definition defaultdict_get :: "inclusion \<Rightarrow> rel_key \<Rightarrow> string set \<times> inclusion" where
  "defaultdict_get st k =
     (case included_relationships st k of
        Some names \<Rightarrow> (names, st)
      | None \<Rightarrow> ({}, st\<lparr>included_relationships := (included_relationships st)(k \<mapsto> {})\<rparr>))"

text \<open>
  \<^verbatim>\<open>API.ensure_identifier(obj)\<close> starts with
  \<^verbatim>\<open>isinstance(obj, collections.Sequence)\<close>. \<^verbatim>\<open>api.py\<close> imports the names
  \<^verbatim>\<open>defaultdict\<close> and \<^verbatim>\<open>Sequence\<close> from \<^verbatim>\<open>collections\<close>, not the module, so the
  name \<^verbatim>\<open>collections\<close> is unbound.
\<close>

definition ensure_identifier :: "resource \<Rightarrow> error + jsonapi_id" where
  "ensure_identifier obj = Inl (NameError ''collections'')"

text \<open>
  \<^verbatim>\<open>API._include(parent, path, included_resources, included_relationships)\<close>. After the
  test on the relationship names recorded for \<^verbatim>\<open>parent\<close>, the method reads the name
  \<^verbatim>\<open>resource\<close>, which is neither a parameter nor a global of the module; the loop
  over the relatives comes after that statement. The result pairs the state of the two
  dictionaries when the call ends with the outcome.
\<close>

definition include_path ::
  "resource \<Rightarrow> string list \<Rightarrow> inclusion \<Rightarrow> inclusion \<times> (error + unit)" where
  "include_path parent path st =
     (case path of
        [] \<Rightarrow> (st, Inr ())
      | relname # rest \<Rightarrow>
          (case defaultdict_get st (Key_Resource parent) of
             (names, st') \<Rightarrow>
               if relname \<in> names then (st', Inr ())
               else (st', Inl (NameError ''resource''))))"

text \<open>
  \<^verbatim>\<open>API.include(primary, paths)\<close> creates the two dictionaries and then iterates over
  \<^verbatim>\<open>resources\<close>; the parameter is called \<^verbatim>\<open>primary\<close>, and no name \<^verbatim>\<open>resources\<close>
  is bound.
\<close>

definition include_paths ::
  "resource list \<Rightarrow> string list list \<Rightarrow> error + inclusion" where
  "include_paths primary paths = Inl (NameError ''resources'')"

text \<open>
  The two statements of the loop body of \<^verbatim>\<open>_include\<close> that record a relative under
  its identifier:
  \<^verbatim>\<open>included_resources[relative_id] = relative\<close> and
  \<^verbatim>\<open>included_relationships[relative_id].add(relname)\<close>; and their effect over a
  sequence of relatives given with their identifiers, in the order of discovery.
\<close>

definition record_relative :: "string \<Rightarrow> jsonapi_id \<Rightarrow> resource \<Rightarrow> inclusion \<Rightarrow> inclusion"
  where
  "record_relative relname relative_id relative st =
     (case defaultdict_get
             (st\<lparr>included_resources := (included_resources st)(relative_id \<mapsto> relative)\<rparr>)
             (Key_Identifier relative_id) of
        (names, st') \<Rightarrow>
          st'\<lparr>included_relationships :=
                (included_relationships st')(Key_Identifier relative_id \<mapsto> insert relname names)\<rparr>)"

fun record_relatives ::
  "string \<Rightarrow> (jsonapi_id \<times> resource) list \<Rightarrow> inclusion \<Rightarrow> inclusion" where
  "record_relatives relname [] st = st"
| "record_relatives relname ((relative_id, relative) # discovered) st =
     record_relatives relname discovered (record_relative relname relative_id relative st)"

text \<open>
  The resource \<open>A\<close> of the cycle scenario, and two different resource objects with the
  identifier \<^verbatim>\<open>("people", "1")\<close>.
\<close>

definition resource_A :: resource where
  "resource_A = [(''id'', J (JStr ''A''))]"

definition person_first :: resource where
  "person_first = [(''id'', J (JStr ''1'')), (''name'', J (JStr ''first''))]"

definition person_second :: resource where
  "person_second = [(''id'', J (JStr ''1'')), (''name'', J (JStr ''second''))]"

section \<open>Round trips of the scalar fields\<close>

text \<open>\<^verbatim>\<open>type(field).__name__\<close>.\<close>

fun class_name :: "field_class \<Rightarrow> string" where
  "class_name Attribute = ''Attribute''"
| "class_name (String regex) = ''String''"
| "class_name (Integer minv maxv) = ''Integer''"
| "class_name Boolean = ''Boolean''"
| "class_name (Fraction minv maxv) = ''Fraction''"
| "class_name (UUID version) = ''UUID''"
| "class_name (ToOneRelationship dereference require_data foreign_types) = ''ToOneRelationship''"
| "class_name (Link normalise) = ''Link''"

text \<open>
  The in-domain values of a field class: any wire value for \<^verbatim>\<open>Attribute\<close>, a \<^verbatim>\<open>str\<close>
  for \<^verbatim>\<open>String\<close>, an \<^verbatim>\<open>int\<close> for \<^verbatim>\<open>Integer\<close>, a \<^verbatim>\<open>bool\<close> for \<^verbatim>\<open>Boolean\<close>, a
  \<^verbatim>\<open>Fraction\<close> for \<^verbatim>\<open>Fraction\<close>, and a 128-bit \<^verbatim>\<open>UUID\<close> for \<^verbatim>\<open>UUID\<close>.
\<close>

fun in_domain :: "field_class \<Rightarrow> pyval \<Rightarrow> bool" where
  "in_domain Attribute v = (case v of J x \<Rightarrow> True | _ \<Rightarrow> False)"
| "in_domain (String regex) v = (case v of J (JStr s) \<Rightarrow> True | _ \<Rightarrow> False)"
| "in_domain (Integer minv maxv) v = (case v of J (JInt n) \<Rightarrow> True | _ \<Rightarrow> False)"
| "in_domain Boolean v = (case v of J (JBool b) \<Rightarrow> True | _ \<Rightarrow> False)"
| "in_domain (Fraction minv maxv) v = (case v of FractionV n d \<Rightarrow> True | _ \<Rightarrow> False)"
| "in_domain (UUID version) v = (case v of UUIDV u \<Rightarrow> 0 \<le> u \<and> u < 2 ^ 128 | _ \<Rightarrow> False)"
| "in_domain c v = False"

text \<open>
  \<^verbatim>\<open>str.lower\<close> on ASCII letters, and the form in which the UUID field returns a
  wire string: \<^verbatim>\<open>urn:\<close>, \<^verbatim>\<open>uuid:\<close>, the braces at both ends and all dashes removed,
  letters in lower case.
\<close>

definition lower_char :: "char \<Rightarrow> char" where
  "lower_char c =
     (if 65 \<le> (of_char c :: int) \<and> (of_char c :: int) \<le> 90
        then char_of ((of_char c :: int) + 32) else c)"

definition uuid_canonical :: "string \<Rightarrow> string" where
  "uuid_canonical s =
     map lower_char
       (remove_all ''-'' (strip_chars ''{}'' (remove_all ''uuid:'' (remove_all ''urn:'' s))))"

text \<open>
  The wire value that encoding the decoded value gives back, by field class: the integer
  value of the number for \<^verbatim>\<open>Integer\<close>, the canonical string for \<^verbatim>\<open>UUID\<close>, the wire
  value itself for the other classes.
\<close>

fun wire_normal_form :: "field_class \<Rightarrow> json \<Rightarrow> json" where
  "wire_normal_form (Integer minv maxv) w = JInt (trunc (num_value w))"
| "wire_normal_form (UUID version) w =
     (case w of JStr s \<Rightarrow> JStr (uuid_canonical s) | _ \<Rightarrow> w)"
| "wire_normal_form c w = w"

text \<open>A UUID field without version restriction, and the UUID of the example.\<close>

definition uuid_field :: field where
  "uuid_field =
     \<lparr>key = Some ''uuid'', name = ''uuid'', mapped_key = ''uuid'',
      writable = Never_Creation_Tuple, required = ''never'', fvalidators = [],
      meta = False, cls = UUID None\<rparr>"

definition dashed_uuid :: string where
  "dashed_uuid = ''3fa85f64-5717-4562-b3fc-2c963f66afa6''"

text \<open>A Fraction and an Integer field without bounds.\<close>

definition fraction_field :: field where
  "fraction_field =
     \<lparr>key = Some ''ratio'', name = ''ratio'', mapped_key = ''ratio'',
      writable = Never_Creation_Tuple, required = ''never'', fvalidators = [],
      meta = False, cls = Fraction None None\<rparr>"

definition integer_field :: field where
  "integer_field =
     \<lparr>key = Some ''count'', name = ''count'', mapped_key = ''count'',
      writable = Never_Creation_Tuple, required = ''never'', fvalidators = [],
      meta = False, cls = Integer None None\<rparr>"

section \<open>Properties\<close>

subsection \<open>Sequencing\<close>

lemma seq_Inl [simp]: "seq (Inl e) f = Inl e"
  by (simp add: seq_def)

lemma seq_Inr [simp]: "seq (Inr x) f = f x"
  by (simp add: seq_def)

lemma isl_seq: "(\<And>x. isl (f x)) \<Longrightarrow> isl (seq m f)"
  by (cases m) simp_all

lemma isl_seq_left: "isl m \<Longrightarrow> isl (seq m f)"
  by (cases m) simp_all

subsection \<open>Construction of Link and Relationship fields\<close>

lemma BaseField_init_positional: "args \<noteq> [] \<Longrightarrow> isl (BaseField_init args kw)"
  by (simp add: BaseField_init_def)

lemma Link_init_fails: "isl (Link_init args kw)"
  by (simp add: Link_init_def BaseField_init_def)

lemma Relationship_init_fails: "isl (Relationship_init args kw)"
proof (cases "args = []")
  case False
  then show ?thesis by (simp add: Relationship_init_def)
next
  case True
  show ?thesis
    unfolding Relationship_init_def using True
    by (simp only: if_False simp_thms)
       (rule isl_seq, rule isl_seq, rule isl_seq, rule isl_seq, rule isl_seq_left,
        rule Link_init_fails)
qed

text \<open>
  Claim C10. Whatever positional and keyword arguments are passed, constructing a
  \<^verbatim>\<open>Link\<close> raises: either the arguments do not fit the signature, or the initializer
  reaches \<^verbatim>\<open>super().__init__(self, ...)\<close>, which hands a positional argument to the
  keyword-only initializer of \<^verbatim>\<open>BaseField\<close>. Constructing a \<^verbatim>\<open>Relationship\<close>, a
  \<^verbatim>\<open>ToOneRelationship\<close> (same initializer) or a \<^verbatim>\<open>ToManyRelationship\<close> raises as
  well: when nothing fails earlier, the initializer constructs the default
  \<^verbatim>\<open>self\<close> link. So no field of these classes exists to be put into a schema.
\<close>

theorem Link_and_Relationship_construction_fails:
  "isl (Link_init args kw) \<and> isl (Relationship_init args kw)
   \<and> isl (ToManyRelationship_init args kw)"
  by (simp add: Link_init_fails Relationship_init_fails ToManyRelationship_init_def)

subsection \<open>Bounds of the Integer field\<close>

text \<open>
  Claim C9. \<^verbatim>\<open>Integer(min=0, max=10)\<close> can be constructed, and for every source
  pointer and context its pre-decode validation rejects \<open>-1\<close> with \<^verbatim>\<open>InvalidValue\<close>
  whose detail is \<^verbatim>\<open>"Must be >= {}."\<close> formatted with the bound \<open>0\<close>, accepts \<open>10\<close>,
  and rejects \<open>11\<close> with \<^verbatim>\<open>InvalidValue\<close> whose detail is \<^verbatim>\<open>"Must be <= {}."\<close>
  formatted with the bound \<open>10\<close>; both errors carry the source pointer.
\<close>

theorem Integer_0_10_bounds:
  "\<exists>f. Integer_init (Some 0) (Some 10) [] [] = Inr f
     \<and> validate_pre_decode f (JInt (- 1)) sp context
         = Inl (InvalidValue (Fmt ''Must be >= {}.'' [J (JInt 0)]) (Some sp))
     \<and> validate_pre_decode f (JInt 10) sp context = Inr ()
     \<and> validate_pre_decode f (JInt 11) sp context
         = Inl (InvalidValue (Fmt ''Must be <= {}.'' [J (JInt 10)]) (Some sp))"
  by (simp add: Integer_init_def Attribute_init_def BaseField_init_def unexpected_def
      remaining_def kwarg_def policy_names_def validate_pre_decode_def
      Integer_validate_pre_decode_def BaseField_validate_pre_decode_def)

subsection \<open>Creating a resource\<close>

lemma decode_resource_fails: "isl (decode_resource bi s data sp)"
  by (simp add: decode_resource_def)

lemma create_resource_never_returns: "isl (create_resource bi s data sp)"
  unfolding create_resource_def
  by (rule isl_seq, rule isl_seq_left, rule decode_resource_fails)

text \<open>
  Claim C1. On the articles schema, \<^verbatim>\<open>create_resource\<close> of the resource object
  \<^verbatim>\<open>{"type": "articles", "attributes": {"title": "Hello"}}\<close> (no \<^verbatim>\<open>id\<close> member)
  does not return a resource: pre-decode validation raises \<^verbatim>\<open>AttributeError\<close> when
  it reads \<^verbatim>\<open>self._japi_id\<close>, and with an id field supplied it raises \<^verbatim>\<open>KeyError\<close>
  at the unguarded \<^verbatim>\<open>data["id"]\<close>.
\<close>

theorem create_without_id_raises:
  "create_resource bi articles_schema hello_article [''data'']
     = Inl (AttributeError ''_japi_id'')
   \<and> create_resource bi articles_with_id hello_article [''data''] = Inl (KeyError ''id'')"
  by (simp add: create_resource_def validate_resource_pre_decode_def articles_schema_def
      articles_with_id_def hello_article_def context_or_crud_def dict_in_def dict_item_def)

subsection \<open>Required and read-only fields\<close>

lemma missing_field_passes: "validate_field_pre_decode s f JNull None context = Inr ()"
  by (simp add: validate_field_pre_decode_def Let_def)

text \<open>
  Claim C2. A field whose member is absent from the document (\<^verbatim>\<open>sp\<close> is \<^verbatim>\<open>None\<close>,
  \<^verbatim>\<open>data\<close> is \<^verbatim>\<open>None\<close>) passes \<^verbatim>\<open>_validate_field_pre_decode\<close> whatever its
  \<^verbatim>\<open>required\<close> policy and the context are; the attribute loop accepts the empty
  \<^verbatim>\<open>attributes\<close> object for the articles schema, whose title is required on creation;
  and \<^verbatim>\<open>create_resource\<close> of \<^verbatim>\<open>{"attributes": {}}\<close> raises \<^verbatim>\<open>KeyError\<close>, not
  \<^verbatim>\<open>InvalidValue\<close>.
\<close>

theorem missing_required_field_not_rejected:
  "validate_field_pre_decode s f JNull None context = Inr ()
   \<and> validate_member_pre_decode articles_with_id (japi_attributes articles_with_id)
        [(''attributes'', JObj [])] ''attributes'' [''data''] = Inr ()
   \<and> create_resource bi articles_with_id (JObj [(''attributes'', JObj [])]) [''data'']
        = Inl (KeyError ''id'')"
  by (simp add: validate_field_pre_decode_def Let_def validate_member_pre_decode_def
      articles_with_id_def articles_schema_def dict_in_def dict_get_def
      create_resource_def validate_resource_pre_decode_def context_or_crud_def dict_item_def)





text \<open>
  Claim C5. A field constructed with the default \<^verbatim>\<open>writable="always"\<close> stores the
  tuple \<^verbatim>\<open>("never", "creation")\<close>, which is never a member of
  \<^verbatim>\<open>("always", context)\<close>: a value supplied for the field is rejected as read-only
  in every context, the create context included.
\<close>

theorem always_writable_field_rejected:
  "\<exists>f. Attribute_init [] [] = Inr f
     \<and> validate_field_pre_decode s (bind_key ''title'' f) data (Some p) context
         = Inl (ValidationError (Text ''The field '{}' is readonly.'') (Some p))"
  by (simp add: Attribute_init_def BaseField_init_def unexpected_def remaining_def kwarg_def
      policy_names_def validate_field_pre_decode_def bind_key_def Let_def)

subsection \<open>Updating a resource with a different id\<close>

text \<open>
  Claim C3. Let the expected id of an update (the \<^verbatim>\<open>resource\<close> argument itself, or
  \<^verbatim>\<open>self.id(resource)\<close> for an instance) be a true value, such as \<^verbatim>\<open>"5"\<close>, and
  let the document be an object whose \<^verbatim>\<open>id\<close> member differs from it, such as
  \<^verbatim>\<open>"6"\<close>. Then pre-decode validation raises \<^verbatim>\<open>Conflict\<close> at the pointer of the
  \<^verbatim>\<open>id\<close> member, and this is the outcome of \<^verbatim>\<open>update_resource\<close>, which leaves
  the resource argument as it was: decoding and the \<^verbatim>\<open>set\<close> loop come after
  validation and are not reached.
\<close>

theorem update_with_other_id_conflicts:
  assumes "resource_id_of bi s resource = Inr expected_id"
    and "bool_of expected_id"
    and "map_of d ''id'' = Some v"
    and "\<not> pyval_eq v expected_id"
  shows "validate_resource_pre_decode s (JObj d) sp (Some ''update'') expected_id
           = Inl (Conflict (Fmt ''The id '{}' does not match the endpoint ('{}').''
                              [J v, expected_id]) (Some (pdiv sp ''id'')))
         \<and> update_resource bi s resource (JObj d) sp
           = (resource, Inl (Conflict (Fmt ''The id '{}' does not match the endpoint ('{}').''
                              [J v, expected_id]) (Some (pdiv sp ''id''))))"
  using assms
  by (simp add: validate_resource_pre_decode_def update_resource_def dict_in_def dict_get_def
      context_or_crud_def)

theorem update_with_other_id_conflicts_witness:
  "resource_id_of example_builtins articles_schema (ById (JStr ''5'')) = Inr (J (JStr ''5''))
   \<and> bool_of (J (JStr ''5''))
   \<and> map_of [(''id'', JStr ''6'')] ''id'' = Some (JStr ''6'')
   \<and> \<not> pyval_eq (JStr ''6'') (J (JStr ''5''))
   \<and> update_resource example_builtins articles_schema (ById (JStr ''5'')) (JObj [(''id'', JStr ''6'')])
        [''data'']
        = (ById (JStr ''5''),
           Inl (Conflict (Fmt ''The id '{}' does not match the endpoint ('{}').''
                            [J (JStr ''6''), J (JStr ''5'')]) (Some [''data'', ''id''])))"
proof -
  have 1: "resource_id_of example_builtins articles_schema (ById (JStr ''5'')) = Inr (J (JStr ''5''))"
    by (simp add: resource_id_of_def isinstance_resource_class_def articles_schema_def)
  have 2: "bool_of (J (JStr ''5''))" by simp
  have 3: "map_of [(''id'', JStr ''6'')] ''id'' = Some (JStr ''6'')" by simp
  have 4: "\<not> pyval_eq (JStr ''6'') (J (JStr ''5''))" by simp
  show ?thesis
    using 1 2 3 4 update_with_other_id_conflicts [OF 1 2 3 4, of "[''data'']"]
    by (simp add: pdiv_def)
qed

subsection \<open>Inclusion\<close>

text \<open>
  Claim C6. Resolving the path \<^verbatim>\<open>["self-ref"]\<close> for the resource \<open>A\<close> returns no
  included set: \<^verbatim>\<open>API.include\<close> raises \<^verbatim>\<open>NameError\<close> for the unbound name
  \<^verbatim>\<open>resources\<close>; \<^verbatim>\<open>API._include\<close>, called directly with empty dictionaries,
  raises \<^verbatim>\<open>NameError\<close> for the unbound name \<^verbatim>\<open>resource\<close> before any relative is
  fetched; and \<^verbatim>\<open>API.ensure_identifier\<close> raises \<^verbatim>\<open>NameError\<close> for \<^verbatim>\<open>collections\<close>.
\<close>

theorem include_self_ref_raises:
  "include_paths [resource_A] [[''self-ref'']] = Inl (NameError ''resources'')
   \<and> snd (include_path resource_A [''self-ref''] no_inclusion) = Inl (NameError ''resource'')
   \<and> ensure_identifier resource_A = Inl (NameError ''collections'')"
  by (simp add: include_paths_def include_path_def defaultdict_get_def no_inclusion_def
      ensure_identifier_def)

lemma included_resources_record_relative:
  "included_resources (record_relative n i r st) = (included_resources st)(i \<mapsto> r)"
  by (simp add: record_relative_def defaultdict_get_def split: option.splits)

lemma included_relationships_record_relative:
  "included_relationships (record_relative n i r st)
     = (included_relationships st)
         (Key_Identifier i \<mapsto> insert n (case included_relationships st (Key_Identifier i) of
                                             None \<Rightarrow> {} | Some names \<Rightarrow> names))"
  by (auto simp add: record_relative_def defaultdict_get_def split: option.splits)

lemma record_relatives_last_wins:
  "included_resources (record_relatives n ds st) i
     = (case map_of (rev ds) i of Some r \<Rightarrow> Some r | None \<Rightarrow> included_resources st i)"
proof (induction ds arbitrary: st)
  case Nil
  show ?case by simp
next
  case (Cons d ds)
  obtain j r where d: "d = (j, r)" by (cases d)
  show ?case
    by (simp add: d Cons.IH included_resources_record_relative map_add_def
        split: option.splits)
qed

lemma record_relatives_tags:
  "included_relationships (record_relatives n ds st) (Key_Identifier i)
     = (if i \<in> fst ` set ds
          then Some (insert n (case included_relationships st (Key_Identifier i) of
                                 None \<Rightarrow> {} | Some names \<Rightarrow> names))
        else included_relationships st (Key_Identifier i))"
proof (induction ds arbitrary: st)
  case Nil
  show ?case by simp
next
  case (Cons d ds)
  obtain j r where d: "d = (j, r)" by (cases d)
  show ?case
    by (auto simp add: d Cons.IH included_relationships_record_relative)
qed

text \<open>
  Claim C7, as the code has it. The included set holds at most one resource object per
  identifier (it is a dictionary). Recording a discovered relative assigns it under its
  identifier unconditionally: after a sequence of discoveries, the object stored for an
  identifier is the one discovered last under it (an identifier not among them keeps
  its entry), and the relationship name has been added to the names recorded for every
  identifier discovered, the earlier names being kept.
\<close>

theorem recorded_relative_is_latest:
  "included_resources (record_relatives n ds st) i
     = (case map_of (rev ds) i of Some r \<Rightarrow> Some r | None \<Rightarrow> included_resources st i)
   \<and> included_relationships (record_relatives n ds st) (Key_Identifier i)
     = (if i \<in> fst ` set ds
          then Some (insert n (case included_relationships st (Key_Identifier i) of
                                 None \<Rightarrow> {} | Some names \<Rightarrow> names))
        else included_relationships st (Key_Identifier i))"
  by (simp only: record_relatives_last_wins record_relatives_tags simp_thms)

text \<open>
  The claim as stated fails: when two different resource objects with the identifier
  \<^verbatim>\<open>("people", "1")\<close> are discovered one after the other, the second one is stored.
\<close>

theorem first_discovery_replaced:
  "included_resources
     (record_relatives ''author''
        [((''people'', ''1''), person_first), ((''people'', ''1''), person_second)]
        no_inclusion) (''people'', ''1'') = Some person_second
   \<and> person_second \<noteq> person_first"
  by (simp add: included_resources_record_relative person_first_def person_second_def)

end
